theory Spec2Isabelle
  imports Complex_Main "HOL-Library.AList"
begin

section \<open>Data model (src/data/buildingData.js, src/pathfinding.js)\<close>

text \<open>
  Modelling conventions.
  \<^item> A node has the fields \<open>id\<close>, \<open>x\<close>, \<open>y\<close>, \<open>type\<close>, \<open>accessible\<close> and, optionally, \<open>label\<close>; its
    coordinates are written as decimal numbers and read as the nearest double
    (\<open>to_double\<close>). Ids are arbitrary strings (byte lists, UTF-8).
  \<^item> JavaScript numbers are doubles: finite values, the two infinities and NaN. Every
    sum, difference and product is rounded to the nearest double, ties to even. The sign of
    zero is not modelled: no operation of this program tells \<open>-0\<close> from \<open>0\<close>.
  \<^item> \<open>adj\<close>, \<open>nodeMap\<close>, \<open>dist\<close> and \<open>prev\<close> are object literals: a lookup finds the object's
    own properties first and then the members it inherits from \<open>Object.prototype\<close> (such as
    \<open>constructor\<close> or \<open>toString\<close>); an assignment to the key \<open>__proto__\<close> creates no own
    property: it does nothing when the value is a number or a string, and it replaces the
    prototype of the object when the value is an object (a node in \<open>nodeMap\<close>, an array in
    \<open>adj\<close>). \<open>Object.prototype\<close> is the one of ECMAScript, with the legacy members that
    browsers have; nothing else is added to it.
  \<^item> What ECMAScript leaves to the implementation is a parameter of the model, the
    \<open>engine\<close>: the results of \<open>Math.sqrt\<close> and of \<open>**\<close>, the source text of a built-in
    function, the names of the members of \<open>Array.prototype\<close>, and the digits of a number
    printed in exponent notation.
  \<^item> A thrown exception is the left summand of the result (\<open>Inl TypeError\<close>); a call that
    does not return is \<open>None\<close>.
  \<^item> \<open>dist\<close> is enumerated by \<open>for ... in\<close>, so it keeps its own keys in insertion order
    (an association list).
  \<^item> The path argument of the direction synthesizers is an array of strings (for the
    \<open>null\<close> path they return no step).
\<close>

record node =
  node_id :: string
  node_x :: real
  node_y :: real
  node_type :: string
  node_accessible :: bool
  node_label :: "string option"

record edge =
  edge_from :: string
  edge_to :: string
  edge_type :: string
  edge_accessible :: bool

record blocked_edge =
  blocked_from :: string
  blocked_to :: string

datatype js_error = TypeError

section \<open>Numbers\<close>

datatype number = Finite real | Infinity | NegInfinity | NaN

text \<open>The nearest integer, the even one of two nearest.\<close>

definition round_half_even :: "real \<Rightarrow> int" where
  "round_half_even x =
     (let f = \<lfloor>x\<rfloor>; r = x - of_int f
      in if r < 1 / 2 then f else if 1 / 2 < r then f + 1 else if even f then f else f + 1)"

text \<open>
  The exponent of a double of magnitude \<open>a\<close>: the greatest \<open>e\<close> from -1022 to 1023 with
  \<open>2^e \<le> a\<close>, and -1022 (the exponent of the subnormal numbers) when there is none. The
  search halves the range eleven times.
\<close>

fun find_exponent :: "nat \<Rightarrow> int \<Rightarrow> int \<Rightarrow> real \<Rightarrow> int" where
  "find_exponent 0 lo hi a = lo"
| "find_exponent (Suc fuel) lo hi a =
     (if hi \<le> lo then lo
      else if 2 powi ((lo + hi + 1) div 2) \<le> a
           then find_exponent fuel ((lo + hi + 1) div 2) hi a
           else find_exponent fuel lo ((lo + hi + 1) div 2 - 1) a)"

definition exponent_of :: "real \<Rightarrow> int" where
  "exponent_of a = find_exponent 11 (- 1022) 1023 a"

text \<open>
  Rounding a real to a double: to the nearest multiple of \<open>2^(e - 52)\<close>, where \<open>e\<close> is the
  exponent; a result of magnitude \<open>2^1024\<close> is an infinity.
\<close>

definition to_double :: "real \<Rightarrow> number" where
  "to_double x =
     (let u = 2 powi (exponent_of \<bar>x\<bar> - 52);
          r = of_int (round_half_even (x / u)) * u
      in if 2 powi 1024 \<le> r then Infinity
         else if r \<le> - (2 powi 1024) then NegInfinity
         else Finite r)"

fun js_add :: "number \<Rightarrow> number \<Rightarrow> number" where
  "js_add (Finite x) (Finite y) = to_double (x + y)"
| "js_add NaN b = NaN"
| "js_add a NaN = NaN"
| "js_add Infinity NegInfinity = NaN"
| "js_add NegInfinity Infinity = NaN"
| "js_add Infinity b = Infinity"
| "js_add a Infinity = Infinity"
| "js_add NegInfinity b = NegInfinity"
| "js_add a NegInfinity = NegInfinity"

fun js_sub :: "number \<Rightarrow> number \<Rightarrow> number" where
  "js_sub (Finite x) (Finite y) = to_double (x - y)"
| "js_sub NaN b = NaN"
| "js_sub a NaN = NaN"
| "js_sub Infinity Infinity = NaN"
| "js_sub NegInfinity NegInfinity = NaN"
| "js_sub Infinity b = Infinity"
| "js_sub a Infinity = NegInfinity"
| "js_sub NegInfinity b = NegInfinity"
| "js_sub a NegInfinity = Infinity"

fun js_mul :: "number \<Rightarrow> number \<Rightarrow> number" where
  "js_mul (Finite x) (Finite y) = to_double (x * y)"
| "js_mul NaN b = NaN"
| "js_mul a NaN = NaN"
| "js_mul Infinity (Finite y) = (if y = 0 then NaN else if 0 < y then Infinity else NegInfinity)"
| "js_mul (Finite x) Infinity = (if x = 0 then NaN else if 0 < x then Infinity else NegInfinity)"
| "js_mul NegInfinity (Finite y) =
     (if y = 0 then NaN else if 0 < y then NegInfinity else Infinity)"
| "js_mul (Finite x) NegInfinity =
     (if x = 0 then NaN else if 0 < x then NegInfinity else Infinity)"
| "js_mul Infinity Infinity = Infinity"
| "js_mul NegInfinity NegInfinity = Infinity"
| "js_mul Infinity NegInfinity = NegInfinity"
| "js_mul NegInfinity Infinity = NegInfinity"

text \<open>\<open>a < b\<close> on numbers; a comparison with NaN is false.\<close>

fun js_lt :: "number \<Rightarrow> number \<Rightarrow> bool" where
  "js_lt (Finite x) (Finite y) = (x < y)"
| "js_lt NaN b = False"
| "js_lt a NaN = False"
| "js_lt a NegInfinity = False"
| "js_lt Infinity b = False"
| "js_lt NegInfinity b = True"
| "js_lt a Infinity = True"

text \<open>\<open>a > b\<close>.\<close>

definition js_gt :: "number \<Rightarrow> number \<Rightarrow> bool" where
  "js_gt a b = js_lt b a"

text \<open>\<open>Math.abs\<close>.\<close>

fun js_abs :: "number \<Rightarrow> number" where
  "js_abs (Finite x) = Finite \<bar>x\<bar>"
| "js_abs Infinity = Infinity"
| "js_abs NegInfinity = Infinity"
| "js_abs NaN = NaN"

text \<open>
  The implementation-defined parts of the language that the program uses:
  \<open>Math.sqrt(v)\<close> and \<open>v ** 2\<close> (both implementation-approximated), the source text that
  \<open>String(f)\<close> gives for the built-in function \<open>Object.prototype[name]\<close>, whether
  \<open>Array.prototype\<close> has a member of a given name, and \<open>String(x)\<close> for a finite number
  \<open>x\<close> of magnitude \<open>10^21\<close> or more.
\<close>

record engine =
  math_sqrt :: "number \<Rightarrow> number"
  power_2 :: "number \<Rightarrow> number"
  function_source :: "string \<Rightarrow> string"
  array_prototype_has :: "string \<Rightarrow> bool"
  number_to_string :: "real \<Rightarrow> string"

section \<open>Object literals\<close>

text \<open>The string-keyed members of \<open>Object.prototype\<close>.\<close>

definition object_prototype :: "string list" where
  "object_prototype =
     [''constructor'', ''__defineGetter__'', ''__defineSetter__'', ''hasOwnProperty'',
      ''__lookupGetter__'', ''__lookupSetter__'', ''isPrototypeOf'', ''propertyIsEnumerable'',
      ''toString'', ''valueOf'', ''__proto__'', ''toLocaleString'']"

definition inherited :: "string \<Rightarrow> bool" where
  "inherited k = (k \<in> set object_prototype)"

text \<open>
  The value of \<open>obj[key]\<close> for an object literal \<open>obj\<close> whose own properties hold values of
  type \<open>'a\<close> and whose prototype is \<open>Object.prototype\<close>: \<open>undefined\<close>, the value of an own
  property, or the inherited member \<open>Object.prototype[name]\<close> (a function, and for the name
  \<open>__proto__\<close> the object \<open>Object.prototype\<close> itself). The same type holds the elements of a
  path: strings and, possibly, inherited members.
\<close>

datatype 'a js_value = Undefined | Val 'a | Inherited string

text \<open>Truthiness of such a value when own values are strings: \<open>undefined\<close> and the empty
  string are falsy, functions and objects are truthy.\<close>

fun truthy :: "string js_value \<Rightarrow> bool" where
  "truthy Undefined = False"
| "truthy (Val s) = (s \<noteq> [])"
| "truthy (Inherited m) = True"

text \<open>
  The property key that \<open>obj[v]\<close> uses for a value \<open>v\<close>: a string is its own key, the object
  \<open>Object.prototype\<close> prints as \<open>[object Object]\<close>, a function as its source text.
\<close>

fun property_key :: "engine \<Rightarrow> string js_value \<Rightarrow> string" where
  "property_key eng Undefined = ''undefined''"
| "property_key eng (Val s) = s"
| "property_key eng (Inherited m) =
     (if m = ''__proto__'' then ''[object Object]'' else function_source eng m)"

text \<open>\<open>dist[k] = v\<close> for a number \<open>v\<close>, and \<open>dist[k]\<close>.\<close>

definition dist_set :: "string \<Rightarrow> number \<Rightarrow> (string \<times> number) list \<Rightarrow> (string \<times> number) list" where
  "dist_set k v d = (if k = ''__proto__'' then d else AList.update k v d)"

definition dist_get :: "(string \<times> number) list \<Rightarrow> string \<Rightarrow> number js_value" where
  "dist_get d k =
     (case map_of d k of
        Some v \<Rightarrow> Val v
      | None \<Rightarrow> if inherited k then Inherited k else Undefined)"

text \<open>\<open>prev[k] = v\<close> for a string \<open>v\<close>, and \<open>prev[k]\<close>.\<close>

definition prev_set :: "string \<Rightarrow> string \<Rightarrow> (string \<rightharpoonup> string) \<Rightarrow> (string \<rightharpoonup> string)" where
  "prev_set k v p = (if k = ''__proto__'' then p else p(k \<mapsto> v))"

definition prev_get :: "(string \<rightharpoonup> string) \<Rightarrow> string \<Rightarrow> string js_value" where
  "prev_get p k =
     (case p k of
        Some v \<Rightarrow> Val v
      | None \<Rightarrow> if inherited k then Inherited k else Undefined)"

text \<open>
  \<open>nodeMap\<close>: its own properties, and the node that replaced its prototype, if any (the
  last node whose id is \<open>__proto__\<close>).
\<close>

record node_map =
  nm_own :: "string \<rightharpoonup> node"
  nm_proto :: "node option"

text \<open>
  What a lookup in \<open>nodeMap\<close> yields, as far as the program uses it: \<open>undefined\<close>, a node, or
  another value (an inherited member of \<open>Object.prototype\<close>, or the value of a field of the
  node that is the prototype); of another value the program uses the truthiness only, the
  properties \<open>x\<close>, \<open>y\<close>, \<open>id\<close>, \<open>type\<close> and \<open>label\<close> that it reads of it being \<open>undefined\<close>.
\<close>

datatype node_value = NoValue | NodeValue node | OtherValue bool

fun truthy_node :: "node_value \<Rightarrow> bool" where
  "truthy_node NoValue = False"
| "truthy_node (NodeValue n) = True"
| "truthy_node (OtherValue t) = t"

text \<open>\<open>nodeMap[n.id] = n\<close>.\<close>

definition nodeMap_set :: "node_map \<Rightarrow> node \<Rightarrow> node_map" where
  "nodeMap_set nm n =
     (if node_id n = ''__proto__'' then nm\<lparr>nm_proto := Some n\<rparr>
      else nm\<lparr>nm_own := (nm_own nm)(node_id n \<mapsto> n)\<rparr>)"

text \<open>The value of the field \<open>k\<close> of a node, if \<open>k\<close> names a field it has: only its
  truthiness (a number is falsy when it is zero, a string when it is empty).\<close>

definition node_field :: "node \<Rightarrow> string \<Rightarrow> bool option" where
  "node_field p k =
     (if k = ''id'' then Some (node_id p \<noteq> [])
      else if k = ''x'' then Some (to_double (node_x p) \<noteq> Finite 0)
      else if k = ''y'' then Some (to_double (node_y p) \<noteq> Finite 0)
      else if k = ''type'' then Some (node_type p \<noteq> [])
      else if k = ''accessible'' then Some (node_accessible p)
      else if k = ''label'' then map_option (\<lambda>l. l \<noteq> []) (node_label p)
      else None)"

text \<open>\<open>nodeMap[k]\<close>.\<close>

definition nodeMap_get :: "node_map \<Rightarrow> string \<Rightarrow> node_value" where
  "nodeMap_get nm k =
     (case nm_own nm k of
        Some n \<Rightarrow> NodeValue n
      | None \<Rightarrow>
         (case nm_proto nm of
            None \<Rightarrow> if inherited k then OtherValue True else NoValue
          | Some p \<Rightarrow>
              if k = ''__proto__'' then NodeValue p
              else (case node_field p k of
                      Some t \<Rightarrow> OtherValue t
                    | None \<Rightarrow> if inherited k then OtherValue True else NoValue)))"

definition nodeMap_of :: "node list \<Rightarrow> node_map" where
  "nodeMap_of nodes = foldl nodeMap_set \<lparr>nm_own = Map.empty, nm_proto = None\<rparr> nodes"

text \<open>\<open>v.x\<close> and \<open>v.y\<close> as operands of a subtraction: \<open>undefined\<close> converts to NaN.\<close>

fun coord_x :: "node_value \<Rightarrow> number" where
  "coord_x (NodeValue n) = to_double (node_x n)"
| "coord_x v = NaN"

fun coord_y :: "node_value \<Rightarrow> number" where
  "coord_y (NodeValue n) = to_double (node_y n)"
| "coord_y v = NaN"

text \<open>An entry \<open>{ node, dist }\<close> of an adjacency list.\<close>

record neighbor =
  nb_node :: string
  nb_dist :: number

text \<open>
  \<open>adj\<close>: its own properties, and the array that replaced its prototype, if any
  (\<open>adj['__proto__'] = []\<close> for a node whose id is \<open>__proto__\<close>).
\<close>

record adjacency =
  adj_own :: "string \<rightharpoonup> neighbor list"
  adj_proto :: "neighbor list option"

text \<open>
  What a lookup in \<open>adj\<close> yields: \<open>undefined\<close>, an own array, the array that is the
  prototype, or a value that is not an array, with its truthiness (an inherited member of
  \<open>Object.prototype\<close> or of \<open>Array.prototype\<close>, or the length or an element of the array that
  is the prototype).
\<close>

datatype adj_value = NoList | OwnList "neighbor list" | ProtoList "neighbor list" | NotAList bool

section \<open>Shortest paths (src/pathfinding.js, dijkstra)\<close>

text \<open>
  An array index is a canonical decimal numeral below \<open>2^32 - 1\<close>. The own keys of an
  object are enumerated with the array indices first, in ascending numeric order, and then
  all other keys in insertion order.
\<close>

definition is_digit :: "char \<Rightarrow> bool" where
  "is_digit c = (48 \<le> (of_char c :: nat) \<and> (of_char c :: nat) \<le> 57)"

definition index_value :: "string \<Rightarrow> nat" where
  "index_value s = foldl (\<lambda>a c. 10 * a + (of_char c - 48)) 0 s"

definition is_array_index :: "string \<Rightarrow> bool" where
  "is_array_index s =
     (s \<noteq> [] \<and> list_all is_digit s \<and> (length s = 1 \<or> hd s \<noteq> CHR ''0'') \<and>
      index_value s < 2 ^ 32 - 1)"

definition for_in_keys :: "(string \<times> 'v) list \<Rightarrow> string list" where
  "for_in_keys obj =
     sort_key index_value (filter is_array_index (map fst obj)) @
     filter (\<lambda>k. \<not> is_array_index k) (map fst obj)"

text \<open>\<open>adj[k] = []\<close>.\<close>

definition adj_new :: "adjacency \<Rightarrow> string \<Rightarrow> adjacency" where
  "adj_new adj k =
     (if k = ''__proto__'' then adj\<lparr>adj_proto := Some []\<rparr>
      else adj\<lparr>adj_own := (adj_own adj)(k \<mapsto> [])\<rparr>)"

text \<open>
  \<open>adj[k]\<close>. When an array is the prototype, the lookup of a key that is no own property
  finds the array's length and elements, then the members of \<open>Array.prototype\<close> and of
  \<open>Object.prototype\<close> (functions, which are truthy).
\<close>

definition adj_get :: "engine \<Rightarrow> adjacency \<Rightarrow> string \<Rightarrow> adj_value" where
  "adj_get eng adj k =
     (case adj_own adj k of
        Some l \<Rightarrow> OwnList l
      | None \<Rightarrow>
         (case adj_proto adj of
            None \<Rightarrow> if inherited k then NotAList True else NoList
          | Some p \<Rightarrow>
              if k = ''__proto__'' then ProtoList p
              else if k = ''length'' then NotAList (p \<noteq> [])
              else if is_array_index k \<and> index_value k < length p then NotAList True
              else if array_prototype_has eng k \<or> inherited k then NotAList True
              else NoList))"

text \<open>
  \<open>if (adj[k]) adj[k].push(nb)\<close>: nothing happens for a falsy value; a truthy value that is
  not an array has no method \<open>push\<close>, and the call throws a TypeError.
\<close>

definition adj_push :: "engine \<Rightarrow> adjacency \<Rightarrow> string \<Rightarrow> neighbor \<Rightarrow> js_error + adjacency" where
  "adj_push eng adj k nb =
     (case adj_get eng adj k of
        NoList \<Rightarrow> Inr adj
      | OwnList l \<Rightarrow> Inr (adj\<lparr>adj_own := (adj_own adj)(k \<mapsto> l @ [nb])\<rparr>)
      | ProtoList l \<Rightarrow> Inr (adj\<lparr>adj_proto := Some (l @ [nb])\<rparr>)
      | NotAList t \<Rightarrow> if t then Inl TypeError else Inr adj)"

definition adj_init :: "node list \<Rightarrow> adjacency" where
  "adj_init nodes =
     foldl (\<lambda>adj n. adj_new adj (node_id n)) \<lparr>adj_own = Map.empty, adj_proto = None\<rparr> nodes"

definition isBlocked :: "blocked_edge list \<Rightarrow> edge \<Rightarrow> bool" where
  "isBlocked blockedEdges e =
     list_ex (\<lambda>b. (blocked_from b = edge_from e \<and> blocked_to b = edge_to e) \<or>
                  (blocked_from b = edge_to e \<and> blocked_to b = edge_from e)) blockedEdges"

text \<open>\<open>Math.sqrt((n1.x - n2.x) ** 2 + (n1.y - n2.y) ** 2)\<close>.\<close>

definition edge_length :: "engine \<Rightarrow> node_value \<Rightarrow> node_value \<Rightarrow> number" where
  "edge_length eng n1 n2 =
     math_sqrt eng (js_add (power_2 eng (js_sub (coord_x n1) (coord_x n2)))
                           (power_2 eng (js_sub (coord_y n1) (coord_y n2))))"

text \<open>The body of \<open>edges.forEach\<close>.\<close>

definition add_edge ::
  "engine \<Rightarrow> bool \<Rightarrow> blocked_edge list \<Rightarrow> node_map \<Rightarrow> adjacency \<Rightarrow> edge
     \<Rightarrow> js_error + adjacency" where
  "add_edge eng wheelchairMode blockedEdges nodeMap adj e =
     (if wheelchairMode \<and> \<not> edge_accessible e then Inr adj
      else if isBlocked blockedEdges e then Inr adj
      else if truthy_node (nodeMap_get nodeMap (edge_from e)) \<and>
              truthy_node (nodeMap_get nodeMap (edge_to e))
      then (let d = edge_length eng (nodeMap_get nodeMap (edge_from e))
                      (nodeMap_get nodeMap (edge_to e))
            in case adj_push eng adj (edge_from e) \<lparr>nb_node = edge_to e, nb_dist = d\<rparr> of
                 Inl err \<Rightarrow> Inl err
               | Inr adj' \<Rightarrow> adj_push eng adj' (edge_to e) \<lparr>nb_node = edge_from e, nb_dist = d\<rparr>)
      else Inr adj)"

text \<open>\<open>edges.forEach\<close>: an exception ends the iteration.\<close>

fun add_edges ::
  "engine \<Rightarrow> bool \<Rightarrow> blocked_edge list \<Rightarrow> node_map \<Rightarrow> adjacency \<Rightarrow> edge list
     \<Rightarrow> js_error + adjacency" where
  "add_edges eng wheelchairMode blockedEdges nodeMap adj [] = Inr adj"
| "add_edges eng wheelchairMode blockedEdges nodeMap adj (e # es) =
     (case add_edge eng wheelchairMode blockedEdges nodeMap adj e of
        Inl err \<Rightarrow> Inl err
      | Inr adj' \<Rightarrow> add_edges eng wheelchairMode blockedEdges nodeMap adj' es)"

definition build_adj ::
  "engine \<Rightarrow> node list \<Rightarrow> edge list \<Rightarrow> bool \<Rightarrow> blocked_edge list \<Rightarrow> js_error + adjacency" where
  "build_adj eng nodes edges wheelchairMode blockedEdges =
     add_edges eng wheelchairMode blockedEdges (nodeMap_of nodes) (adj_init nodes) edges"

text \<open>The state of the main loop; \<open>visited\<close> is a \<open>Set\<close>, which keeps insertion order.\<close>

record dijkstra_state =
  dist_obj :: "(string \<times> number) list"
  prev :: "string \<rightharpoonup> string"
  visited :: "string list"

text \<open>
  The body of the selection scan; the accumulator is \<open>(minNode, minDist)\<close>. The key comes
  from the enumeration of \<open>dist\<close>, so \<open>dist[id]\<close> is an own property.
\<close>

definition scan_step ::
  "dijkstra_state \<Rightarrow> string option \<times> number \<Rightarrow> string \<Rightarrow> string option \<times> number" where
  "scan_step st acc k =
     (case dist_get (dist_obj st) k of
        Val d \<Rightarrow> if k \<notin> set (visited st) \<and> js_lt d (snd acc) then (Some k, d) else acc
      | _ \<Rightarrow> acc)"

definition select_min :: "dijkstra_state \<Rightarrow> string option" where
  "select_min st = fst (foldl (scan_step st) (None, Infinity) (for_in_keys (dist_obj st)))"

text \<open>
  The body of the loop over the neighbours of \<open>minNode\<close>. \<open>dist[minNode]\<close> is an own
  property (\<open>minNode\<close> was enumerated). \<open>newDist < dist[neighbor.node]\<close> is false when
  \<open>dist[neighbor.node]\<close> is \<open>undefined\<close> or an inherited member, which convert to NaN.
\<close>

definition relax :: "string \<Rightarrow> dijkstra_state \<Rightarrow> neighbor \<Rightarrow> dijkstra_state" where
  "relax minNode st nb =
     (if nb_node nb \<in> set (visited st) then st
      else (case dist_get (dist_obj st) minNode of
              Val dm \<Rightarrow>
                (case dist_get (dist_obj st) (nb_node nb) of
                   Val dn \<Rightarrow>
                     if js_lt (js_add dm (nb_dist nb)) dn
                     then st\<lparr>dist_obj := dist_set (nb_node nb) (js_add dm (nb_dist nb)) (dist_obj st),
                             prev := prev_set (nb_node nb) minNode (prev st)\<rparr>
                     else st
                 | _ \<Rightarrow> st)
            | _ \<Rightarrow> st))"

text \<open>
  \<open>visited.add(minNode)\<close> and the loop \<open>for (const neighbor of (adj[minNode] || []))\<close>: a
  truthy value that is not an array is not iterable, and the loop throws a TypeError.
\<close>

definition visit ::
  "engine \<Rightarrow> adjacency \<Rightarrow> string \<Rightarrow> dijkstra_state \<Rightarrow> js_error + dijkstra_state" where
  "visit eng adj minNode st =
     (case adj_get eng adj minNode of
        NoList \<Rightarrow> Inr (st\<lparr>visited := visited st @ [minNode]\<rparr>)
      | OwnList l \<Rightarrow> Inr (foldl (relax minNode) (st\<lparr>visited := visited st @ [minNode]\<rparr>) l)
      | ProtoList l \<Rightarrow> Inr (foldl (relax minNode) (st\<lparr>visited := visited st @ [minNode]\<rparr>) l)
      | NotAList t \<Rightarrow>
          if t then Inl TypeError else Inr (st\<lparr>visited := visited st @ [minNode]\<rparr>))"

lemma update_keys:
  "map_of al k \<noteq> None \<Longrightarrow> map fst (AList.update k v al) = map fst al"
  by (induction al) auto

lemma relax_keys: "map fst (dist_obj (relax m st nb)) = map fst (dist_obj st)"
  by (simp add: relax_def dist_get_def dist_set_def update_keys
      split: option.splits js_value.splits)

lemma relax_visited: "visited (relax m st nb) = visited st"
  by (simp add: relax_def split: js_value.splits)

lemma foldl_relax_keys: "map fst (dist_obj (foldl (relax m) st l)) = map fst (dist_obj st)"
  by (induction l arbitrary: st) (simp_all add: relax_keys)

lemma foldl_relax_visited: "visited (foldl (relax m) st l) = visited st"
  by (induction l arbitrary: st) (simp_all add: relax_visited)

lemma visit_keys:
  "visit eng adj m st = Inr st' \<Longrightarrow> map fst (dist_obj st') = map fst (dist_obj st)"
  by (auto simp: visit_def foldl_relax_keys split: adj_value.splits if_splits)

lemma visit_visited:
  "visit eng adj m st = Inr st' \<Longrightarrow> visited st' = visited st @ [m]"
  by (auto simp: visit_def foldl_relax_visited split: adj_value.splits if_splits)

lemma set_for_in_keys: "set (for_in_keys obj) = fst ` set obj"
  by (auto simp: for_in_keys_def)

lemma scan_selected:
  "fst (foldl (scan_step st) acc ks) = Some m \<Longrightarrow>
     fst acc = Some m \<or> (m \<in> set ks \<and> m \<notin> set (visited st))"
proof (induction ks arbitrary: acc)
  case Nil
  then show ?case by simp
next
  case (Cons k ks)
  from Cons.prems have "fst (foldl (scan_step st) (scan_step st acc k) ks) = Some m"
    by simp
  from Cons.IH [OF this] show ?case
    by (auto simp: scan_step_def split: js_value.splits if_splits)
qed

lemma select_min_unvisited:
  "select_min st = Some m \<Longrightarrow> m \<in> fst ` set (dist_obj st) \<and> m \<notin> set (visited st)"
  using scan_selected [of st "(None, Infinity)" "for_in_keys (dist_obj st)" m]
  by (simp add: select_min_def set_for_in_keys)

text \<open>
  The loop \<open>while (true)\<close>. It ends when no unvisited key has a finite distance
  (\<open>minNode\<close> stays \<open>null\<close>), when the selected key is the empty string (\<open>!minNode\<close> holds
  for it as well), when the selected key is \<open>endId\<close>, or with an exception.
\<close>

function dijkstra_loop ::
  "engine \<Rightarrow> adjacency \<Rightarrow> string \<Rightarrow> dijkstra_state \<Rightarrow> js_error + dijkstra_state" where
  "dijkstra_loop eng adj endId st =
     (case select_min st of
        None \<Rightarrow> Inr st
      | Some minNode \<Rightarrow>
          if minNode = [] \<or> minNode = endId then Inr st
          else (case visit eng adj minNode st of
                  Inl err \<Rightarrow> Inl err
                | Inr st' \<Rightarrow> dijkstra_loop eng adj endId st'))"
  by pat_completeness auto
termination
proof (relation "measure (\<lambda>(eng, adj, endId, st). card (fst ` set (dist_obj st) - set (visited st)))")
  show "wf (measure (\<lambda>(eng :: engine, adj :: adjacency, endId :: string, st).
         card (fst ` set (dist_obj st) - set (visited st))))"
    by simp
next
  fix eng :: engine and adj :: adjacency and endId :: string and st minNode st'
  assume "select_min st = Some minNode" and v: "visit eng adj minNode st = Inr st'"
  then have m: "minNode \<in> fst ` set (dist_obj st)" "minNode \<notin> set (visited st)"
    using select_min_unvisited by auto
  have keys: "fst ` set (dist_obj st') = fst ` set (dist_obj st)"
    using visit_keys [OF v] by (metis list.set_map)
  have "fst ` set (dist_obj st) - set (visited st @ [minNode])
          \<subset> fst ` set (dist_obj st) - set (visited st)"
    using m by auto
  then have "card (fst ` set (dist_obj st) - set (visited st @ [minNode]))
          < card (fst ` set (dist_obj st) - set (visited st))"
    by (intro psubset_card_mono) auto
  then show "((eng, adj, endId, st'), (eng, adj, endId, st)) \<in>
          measure (\<lambda>(eng, adj, endId, st). card (fst ` set (dist_obj st) - set (visited st)))"
    by (simp add: keys visit_visited [OF v])
qed

declare dijkstra_loop.simps [simp del]

text \<open>
  The reconstruction loop \<open>while (current) { path.unshift(current); current = prev[current]; }\<close>.
  It stops at \<open>undefined\<close> and at the empty string, and goes on through an inherited member,
  which is truthy; when it does not stop, it does not return.
\<close>

partial_function (option) walk ::
  "engine \<Rightarrow> (string \<rightharpoonup> string) \<Rightarrow> string js_value \<Rightarrow> string js_value list
     \<Rightarrow> string js_value list option" where
  "walk eng prv current path =
     (if truthy current
      then walk eng prv (prev_get prv (property_key eng current)) (current # path)
      else Some path)"

definition init_state :: "string \<Rightarrow> node list \<Rightarrow> dijkstra_state" where
  "init_state startId nodes =
     \<lparr>dist_obj = dist_set startId (Finite 0)
               (foldl (\<lambda>d n. dist_set (node_id n) Infinity d) [] nodes),
      prev = Map.empty,
      visited = []\<rparr>"

text \<open>The result of \<open>dijkstra\<close>: \<open>null\<close> or \<open>{ path, distance }\<close>, where \<open>distance\<close> is
  \<open>dist[endId]\<close>.\<close>

datatype route_result = NotFound | Route "string js_value list" "number js_value"

text \<open>\<open>dijkstra\<close>: \<open>None\<close> when the reconstruction loop does not return, \<open>Some (Inl TypeError)\<close>
  when an exception is thrown, \<open>Some (Inr r)\<close> when \<open>r\<close> is returned.\<close>

definition dijkstra ::
  "engine \<Rightarrow> string \<Rightarrow> string \<Rightarrow> node list \<Rightarrow> edge list \<Rightarrow> bool \<Rightarrow> blocked_edge list
     \<Rightarrow> (js_error + route_result) option" where
  "dijkstra eng startId endId nodes edges wheelchairMode blockedEdges =
     (case build_adj eng nodes edges wheelchairMode blockedEdges of
        Inl err \<Rightarrow> Some (Inl err)
      | Inr adj \<Rightarrow>
         (case dijkstra_loop eng adj endId (init_state startId nodes) of
            Inl err \<Rightarrow> Some (Inl err)
          | Inr st \<Rightarrow>
              if dist_get (dist_obj st) endId = Val Infinity then Some (Inr NotFound)
              else map_option (\<lambda>path. Inr (Route path (dist_get (dist_obj st) endId)))
                     (walk eng (prev st) (Val endId) [])))"

section \<open>Nearest exit (src/pathfinding.js, findNearestExit)\<close>





section \<open>The building dataset (src/data/buildingData.js)\<close>

definition NODES :: "node list" where
  "NODES = [
     \<lparr>node_id = ''NODE_EXIT_A'', node_x = 26, node_y = 4.65, node_type = ''exit'',
      node_accessible = True, node_label = Some ''Exit A''\<rparr>,
     \<lparr>node_id = ''NODE_EXIT_B'', node_x = 18, node_y = (-20), node_type = ''exit'',
      node_accessible = True, node_label = Some ''Exit B''\<rparr>,
     \<lparr>node_id = ''NODE_EXIT_C'', node_x = (-10), node_y = 20, node_type = ''exit'',
      node_accessible = True, node_label = Some ''Exit C''\<rparr>,
     \<lparr>node_id = ''NODE_ELEVATOR'', node_x = 19, node_y = (-12.5), node_type = ''elevator'',
      node_accessible = True, node_label = Some ''Elevator''\<rparr>,
     \<lparr>node_id = ''NODE_STAIRS_1'', node_x = (-23), node_y = 15.75, node_type = ''stairs'',
      node_accessible = False, node_label = Some ''Stairs 1''\<rparr>,
     \<lparr>node_id = ''NODE_STAIRS_2'', node_x = 15.5, node_y = (-11.75), node_type = ''stairs'',
      node_accessible = False, node_label = Some ''Stairs 2''\<rparr>,
     \<lparr>node_id = ''NODE_REFUGE_1'', node_x = (-17), node_y = 17, node_type = ''refuge'',
      node_accessible = True, node_label = Some ''Refuge 1''\<rparr>,
     \<lparr>node_id = ''NODE_REFUGE_2'', node_x = 15.5, node_y = (-17), node_type = ''refuge'',
      node_accessible = True, node_label = Some ''Refuge 2''\<rparr>,
     \<lparr>node_id = ''NODE_RAMP'', node_x = 16, node_y = (-16), node_type = ''ramp'',
      node_accessible = True, node_label = Some ''Ramp''\<rparr>,
     \<lparr>node_id = ''NODE_NC_W'', node_x = (-18), node_y = 10, node_type = ''intersection'',
      node_accessible = True, node_label = None\<rparr>,
     \<lparr>node_id = ''NODE_NC_1'', node_x = (-14), node_y = 10, node_type = ''intersection'',
      node_accessible = True, node_label = None\<rparr>,
     \<lparr>node_id = ''NODE_NC_NW'', node_x = (-10), node_y = 10, node_type = ''intersection'',
      node_accessible = True, node_label = None\<rparr>,
     \<lparr>node_id = ''NODE_NC_2'', node_x = (-5), node_y = 10, node_type = ''intersection'',
      node_accessible = True, node_label = None\<rparr>,
     \<lparr>node_id = ''NODE_NC_C'', node_x = (-2), node_y = 10, node_type = ''intersection'',
      node_accessible = True, node_label = None\<rparr>,
     \<lparr>node_id = ''NODE_NC_3'', node_x = 6, node_y = 10, node_type = ''intersection'',
      node_accessible = True, node_label = None\<rparr>,
     \<lparr>node_id = ''NODE_NC_E'', node_x = 14, node_y = 10, node_type = ''intersection'',
      node_accessible = True, node_label = None\<rparr>,
     \<lparr>node_id = ''NODE_SC_W'', node_x = (-18), node_y = (-8), node_type = ''intersection'',
      node_accessible = True, node_label = None\<rparr>,
     \<lparr>node_id = ''NODE_SC_1'', node_x = (-12), node_y = (-8), node_type = ''intersection'',
      node_accessible = True, node_label = None\<rparr>,
     \<lparr>node_id = ''NODE_SC_2'', node_x = (-7), node_y = (-8), node_type = ''intersection'',
      node_accessible = True, node_label = None\<rparr>,
     \<lparr>node_id = ''NODE_SC_C'', node_x = (-2), node_y = (-8), node_type = ''intersection'',
      node_accessible = True, node_label = None\<rparr>,
     \<lparr>node_id = ''NODE_SC_3'', node_x = 5, node_y = (-8), node_type = ''intersection'',
      node_accessible = True, node_label = None\<rparr>,
     \<lparr>node_id = ''NODE_SC_4'', node_x = 6, node_y = (-8), node_type = ''intersection'',
      node_accessible = True, node_label = None\<rparr>,
     \<lparr>node_id = ''NODE_SC_E'', node_x = 14, node_y = (-8), node_type = ''intersection'',
      node_accessible = True, node_label = None\<rparr>,
     \<lparr>node_id = ''NODE_SC_SE'', node_x = 18, node_y = (-8), node_type = ''intersection'',
      node_accessible = True, node_label = None\<rparr>,
     \<lparr>node_id = ''NODE_WB_1'', node_x = (-18), node_y = 4, node_type = ''intersection'',
      node_accessible = True, node_label = None\<rparr>,
     \<lparr>node_id = ''NODE_WB_2'', node_x = (-18), node_y = 0, node_type = ''intersection'',
      node_accessible = True, node_label = None\<rparr>,
     \<lparr>node_id = ''NODE_EW_MID'', node_x = 14, node_y = 4.65, node_type = ''intersection'',
      node_accessible = True, node_label = None\<rparr>,
     \<lparr>node_id = ''NODE_NW_MID'', node_x = (-10), node_y = 15, node_type = ''intersection'',
      node_accessible = True, node_label = None\<rparr>,
     \<lparr>node_id = ''NODE_SE_MID'', node_x = 18, node_y = (-14), node_type = ''intersection'',
      node_accessible = True, node_label = None\<rparr>,
     \<lparr>node_id = ''NODE_DEAD_1'', node_x = (-24), node_y = (-8), node_type = ''intersection'',
      node_accessible = True, node_label = None\<rparr>,
     \<lparr>node_id = ''NODE_DEAD_2'', node_x = (-22), node_y = (-12.5), node_type = ''intersection'',
      node_accessible = True, node_label = None\<rparr>,
     \<lparr>node_id = ''NODE_DOOR_STAIRS1'', node_x = (-20), node_y = 11.5, node_type = ''door'',
      node_accessible = True, node_label = None\<rparr>,
     \<lparr>node_id = ''NODE_DOOR_REFUGE1'', node_x = (-14), node_y = 11.5, node_type = ''door'',
      node_accessible = True, node_label = None\<rparr>,
     \<lparr>node_id = ''NODE_DOOR_LAB'', node_x = (-5), node_y = 11.5, node_type = ''door'',
      node_accessible = True, node_label = None\<rparr>,
     \<lparr>node_id = ''NODE_DOOR_OFF4A'', node_x = 6, node_y = 11.5, node_type = ''door'',
      node_accessible = True, node_label = None\<rparr>,
     \<lparr>node_id = ''NODE_DOOR_CONF_N'', node_x = 8, node_y = 8.5, node_type = ''door'',
      node_accessible = True, node_label = None\<rparr>,
     \<lparr>node_id = ''NODE_DOOR_CONF_S'', node_x = 5, node_y = (-6.5), node_type = ''door'',
      node_accessible = True, node_label = None\<rparr>,
     \<lparr>node_id = ''NODE_DOOR_OFF1'', node_x = (-16.5), node_y = 4, node_type = ''door'',
      node_accessible = True, node_label = None\<rparr>,
     \<lparr>node_id = ''NODE_DOOR_OFF2'', node_x = (-16.5), node_y = 0, node_type = ''door'',
      node_accessible = True, node_label = None\<rparr>,
     \<lparr>node_id = ''NODE_DOOR_OFF3'', node_x = (-12), node_y = (-6.5), node_type = ''door'',
      node_accessible = True, node_label = None\<rparr>,
     \<lparr>node_id = ''NODE_DOOR_BREAK'', node_x = (-12), node_y = (-9.5), node_type = ''door'',
      node_accessible = True, node_label = None\<rparr>,
     \<lparr>node_id = ''NODE_DOOR_BATH'', node_x = (-7), node_y = (-9.5), node_type = ''door'',
      node_accessible = True, node_label = None\<rparr>,
     \<lparr>node_id = ''NODE_DOOR_STORAGE'', node_x = 6, node_y = (-9.5), node_type = ''door'',
      node_accessible = True, node_label = None\<rparr>]"

definition EDGES :: "edge list" where
  "EDGES = [
     \<lparr>edge_from = ''NODE_NC_W'', edge_to = ''NODE_NC_1'', edge_type = ''corridor'',
      edge_accessible = True\<rparr>,
     \<lparr>edge_from = ''NODE_NC_1'', edge_to = ''NODE_NC_NW'', edge_type = ''corridor'',
      edge_accessible = True\<rparr>,
     \<lparr>edge_from = ''NODE_NC_NW'', edge_to = ''NODE_NC_2'', edge_type = ''corridor'',
      edge_accessible = True\<rparr>,
     \<lparr>edge_from = ''NODE_NC_2'', edge_to = ''NODE_NC_C'', edge_type = ''corridor'',
      edge_accessible = True\<rparr>,
     \<lparr>edge_from = ''NODE_NC_C'', edge_to = ''NODE_NC_3'', edge_type = ''corridor'',
      edge_accessible = True\<rparr>,
     \<lparr>edge_from = ''NODE_NC_3'', edge_to = ''NODE_NC_E'', edge_type = ''corridor'',
      edge_accessible = True\<rparr>,
     \<lparr>edge_from = ''NODE_NC_E'', edge_to = ''NODE_EXIT_A'', edge_type = ''corridor'',
      edge_accessible = True\<rparr>,
     \<lparr>edge_from = ''NODE_DEAD_1'', edge_to = ''NODE_SC_W'', edge_type = ''corridor'',
      edge_accessible = True\<rparr>,
     \<lparr>edge_from = ''NODE_SC_W'', edge_to = ''NODE_SC_1'', edge_type = ''corridor'',
      edge_accessible = True\<rparr>,
     \<lparr>edge_from = ''NODE_SC_1'', edge_to = ''NODE_SC_2'', edge_type = ''corridor'',
      edge_accessible = True\<rparr>,
     \<lparr>edge_from = ''NODE_SC_2'', edge_to = ''NODE_SC_C'', edge_type = ''corridor'',
      edge_accessible = True\<rparr>,
     \<lparr>edge_from = ''NODE_SC_C'', edge_to = ''NODE_SC_3'', edge_type = ''corridor'',
      edge_accessible = True\<rparr>,
     \<lparr>edge_from = ''NODE_SC_3'', edge_to = ''NODE_SC_4'', edge_type = ''corridor'',
      edge_accessible = True\<rparr>,
     \<lparr>edge_from = ''NODE_SC_4'', edge_to = ''NODE_SC_E'', edge_type = ''corridor'',
      edge_accessible = True\<rparr>,
     \<lparr>edge_from = ''NODE_SC_E'', edge_to = ''NODE_SC_SE'', edge_type = ''corridor'',
      edge_accessible = True\<rparr>,
     \<lparr>edge_from = ''NODE_NC_W'', edge_to = ''NODE_WB_1'', edge_type = ''corridor'',
      edge_accessible = True\<rparr>,
     \<lparr>edge_from = ''NODE_WB_1'', edge_to = ''NODE_WB_2'', edge_type = ''corridor'',
      edge_accessible = True\<rparr>,
     \<lparr>edge_from = ''NODE_WB_2'', edge_to = ''NODE_SC_W'', edge_type = ''corridor'',
      edge_accessible = True\<rparr>,
     \<lparr>edge_from = ''NODE_NC_C'', edge_to = ''NODE_SC_C'', edge_type = ''corridor'',
      edge_accessible = True\<rparr>,
     \<lparr>edge_from = ''NODE_NC_E'', edge_to = ''NODE_EW_MID'', edge_type = ''corridor'',
      edge_accessible = True\<rparr>,
     \<lparr>edge_from = ''NODE_EW_MID'', edge_to = ''NODE_SC_E'', edge_type = ''corridor'',
      edge_accessible = True\<rparr>,
     \<lparr>edge_from = ''NODE_EW_MID'', edge_to = ''NODE_EXIT_A'', edge_type = ''corridor'',
      edge_accessible = True\<rparr>,
     \<lparr>edge_from = ''NODE_NC_NW'', edge_to = ''NODE_NW_MID'', edge_type = ''corridor'',
      edge_accessible = True\<rparr>,
     \<lparr>edge_from = ''NODE_NW_MID'', edge_to = ''NODE_EXIT_C'', edge_type = ''corridor'',
      edge_accessible = True\<rparr>,
     \<lparr>edge_from = ''NODE_SC_SE'', edge_to = ''NODE_SE_MID'', edge_type = ''corridor'',
      edge_accessible = True\<rparr>,
     \<lparr>edge_from = ''NODE_SE_MID'', edge_to = ''NODE_EXIT_B'', edge_type = ''corridor'',
      edge_accessible = True\<rparr>,
     \<lparr>edge_from = ''NODE_SC_W'', edge_to = ''NODE_DEAD_1'', edge_type = ''corridor'',
      edge_accessible = True\<rparr>,
     \<lparr>edge_from = ''NODE_DEAD_1'', edge_to = ''NODE_DEAD_2'', edge_type = ''corridor'',
      edge_accessible = True\<rparr>,
     \<lparr>edge_from = ''NODE_NC_3'', edge_to = ''NODE_DOOR_CONF_N'', edge_type = ''door'',
      edge_accessible = True\<rparr>,
     \<lparr>edge_from = ''NODE_DOOR_CONF_N'', edge_to = ''NODE_DOOR_CONF_S'', edge_type = ''room'',
      edge_accessible = True\<rparr>,
     \<lparr>edge_from = ''NODE_DOOR_CONF_S'', edge_to = ''NODE_SC_3'', edge_type = ''door'',
      edge_accessible = True\<rparr>,
     \<lparr>edge_from = ''NODE_NC_W'', edge_to = ''NODE_DOOR_STAIRS1'', edge_type = ''corridor'',
      edge_accessible = True\<rparr>,
     \<lparr>edge_from = ''NODE_DOOR_STAIRS1'', edge_to = ''NODE_STAIRS_1'', edge_type = ''stairs'',
      edge_accessible = False\<rparr>,
     \<lparr>edge_from = ''NODE_SE_MID'', edge_to = ''NODE_STAIRS_2'', edge_type = ''stairs'',
      edge_accessible = False\<rparr>,
     \<lparr>edge_from = ''NODE_SE_MID'', edge_to = ''NODE_ELEVATOR'', edge_type = ''elevator'',
      edge_accessible = True\<rparr>,
     \<lparr>edge_from = ''NODE_NC_1'', edge_to = ''NODE_DOOR_REFUGE1'', edge_type = ''door'',
      edge_accessible = True\<rparr>,
     \<lparr>edge_from = ''NODE_DOOR_REFUGE1'', edge_to = ''NODE_REFUGE_1'', edge_type = ''corridor'',
      edge_accessible = True\<rparr>,
     \<lparr>edge_from = ''NODE_SE_MID'', edge_to = ''NODE_REFUGE_2'', edge_type = ''corridor'',
      edge_accessible = True\<rparr>,
     \<lparr>edge_from = ''NODE_ELEVATOR'', edge_to = ''NODE_RAMP'', edge_type = ''ramp'',
      edge_accessible = True\<rparr>,
     \<lparr>edge_from = ''NODE_NC_2'', edge_to = ''NODE_DOOR_LAB'', edge_type = ''door'',
      edge_accessible = True\<rparr>,
     \<lparr>edge_from = ''NODE_NC_3'', edge_to = ''NODE_DOOR_OFF4A'', edge_type = ''door'',
      edge_accessible = True\<rparr>,
     \<lparr>edge_from = ''NODE_WB_1'', edge_to = ''NODE_DOOR_OFF1'', edge_type = ''door'',
      edge_accessible = True\<rparr>,
     \<lparr>edge_from = ''NODE_WB_2'', edge_to = ''NODE_DOOR_OFF2'', edge_type = ''door'',
      edge_accessible = True\<rparr>,
     \<lparr>edge_from = ''NODE_SC_1'', edge_to = ''NODE_DOOR_OFF3'', edge_type = ''door'',
      edge_accessible = True\<rparr>,
     \<lparr>edge_from = ''NODE_SC_1'', edge_to = ''NODE_DOOR_BREAK'', edge_type = ''door'',
      edge_accessible = True\<rparr>,
     \<lparr>edge_from = ''NODE_SC_2'', edge_to = ''NODE_DOOR_BATH'', edge_type = ''door'',
      edge_accessible = True\<rparr>,
     \<lparr>edge_from = ''NODE_SC_4'', edge_to = ''NODE_DOOR_STORAGE'', edge_type = ''door'',
      edge_accessible = True\<rparr>]"

section \<open>Directions (src/pathfinding.js, generateDirections)\<close>

text \<open>A step \<open>{ text, distance, type }\<close>; \<open>distance\<close> is the string made by \<open>toFixed(0)\<close>.\<close>

record direction =
  dir_text :: string
  dir_distance :: string
  dir_type :: string

definition digit_char :: "nat \<Rightarrow> char" where
  "digit_char d = ''0123456789'' ! d"

fun decimal :: "nat \<Rightarrow> string" where
  "decimal n = (if n < 10 then [digit_char n] else decimal (n div 10) @ [digit_char (n mod 10)])"

declare decimal.simps [simp del]

text \<open>
  \<open>v.toFixed(0)\<close>: \<open>NaN\<close> and the infinities print by name; a finite number prints its sign
  and then, below \<open>10^21\<close>, the decimal digits of the integer nearest to its magnitude (the
  larger one of two nearest), and from \<open>10^21\<close> on what \<open>String\<close> gives for its magnitude.
\<close>

definition toFixed0 :: "engine \<Rightarrow> number \<Rightarrow> string" where
  "toFixed0 eng v =
     (case v of
        Finite x \<Rightarrow>
          (if x < 0 then ''-'' else []) @
          (if 10 ^ 21 \<le> \<bar>x\<bar> then number_to_string eng \<bar>x\<bar>
           else decimal (nat \<lfloor>\<bar>x\<bar> + 1 / 2\<rfloor>))
      | Infinity \<Rightarrow> ''Infinity''
      | NegInfinity \<Rightarrow> ''-Infinity''
      | NaN \<Rightarrow> ''NaN'')"

text \<open>\<open>s.includes(pat)\<close>.\<close>

fun str_includes :: "string \<Rightarrow> string \<Rightarrow> bool" where
  "str_includes [] pat = (pat = [])"
| "str_includes (c # s) pat = (take (length pat) (c # s) = pat \<or> str_includes s pat)"

text \<open>\<open>s.replace(pat, rep)\<close> for a string pattern: the first occurrence only.\<close>

fun replace_first :: "string \<Rightarrow> string \<Rightarrow> string \<Rightarrow> string" where
  "replace_first pat rep [] = (if pat = [] then rep else [])"
| "replace_first pat rep (c # s) =
     (if take (length pat) (c # s) = pat then rep @ drop (length pat) (c # s)
      else c # replace_first pat rep s)"

text \<open>\<open>curr.label || curr.id.replace('NODE_', '').replace(/_/g, ' ')\<close> for a node; a missing
  and an empty label are both falsy.\<close>

definition label_of :: "node \<Rightarrow> string" where
  "label_of n =
     (case node_label n of
        Some l \<Rightarrow>
          if l \<noteq> [] then l
          else map (\<lambda>c. if c = CHR ''_'' then CHR '' '' else c)
                 (replace_first ''NODE_'' [] (node_id n))
      | None \<Rightarrow>
          map (\<lambda>c. if c = CHR ''_'' then CHR '' '' else c)
            (replace_first ''NODE_'' [] (node_id n)))"

text \<open>The em dash of the template \<open>Head ... - ...m\<close>, in UTF-8.\<close>

definition em_dash :: string where
  "em_dash = [CHR 0xE2, CHR 0x80, CHR 0x94]"

text \<open>
  The body of the loop \<open>for (let i = 1; i < path.length; i++)\<close>: no step when \<open>prev\<close> or
  \<open>curr\<close> is falsy (\<open>continue\<close>); one step when \<open>curr\<close> is a node; when \<open>curr\<close> is another
  truthy value, \<open>curr.label\<close> and \<open>curr.id\<close> are \<open>undefined\<close> and \<open>curr.id.replace\<close> throws a
  TypeError. \<open>next\<close> is \<open>null\<close> at the last index.
\<close>

definition direction_at ::
  "engine \<Rightarrow> node_map \<Rightarrow> string list \<Rightarrow> nat \<Rightarrow> js_error + direction list" where
  "direction_at eng nodeMap path i =
     (let prv = nodeMap_get nodeMap (path ! (i - 1));
          cur = nodeMap_get nodeMap (path ! i);
          next = (if i < length path - 1 then nodeMap_get nodeMap (path ! (i + 1)) else NoValue)
      in if truthy_node prv \<and> truthy_node cur
         then (let dx = js_sub (coord_x cur) (coord_x prv);
                   dy = js_sub (coord_y cur) (coord_y prv);
                   dst = toFixed0 eng (math_sqrt eng (js_add (js_mul dx dx) (js_mul dy dy)));
                   direction =
                     (if js_gt (js_abs dx) (js_abs dy)
                      then (if js_gt dx (Finite 0) then ''east'' else ''west'')
                      else (if js_gt dy (Finite 0) then ''north'' else ''south''));
                   turn =
                     (if truthy_node next \<and> i < length path - 1
                      then (let dx2 = js_sub (coord_x next) (coord_x cur);
                                dy2 = js_sub (coord_y next) (coord_y cur);
                                cross = js_sub (js_mul dx dy2) (js_mul dy dx2)
                            in if js_gt (js_abs cross) (Finite (1 / 2))
                               then (if js_gt cross (Finite 0) then ''Turn left''
                                     else ''Turn right'')
                               else ''Continue straight'')
                      else [])
               in case cur of
                    NodeValue n \<Rightarrow>
                      if i = length path - 1
                      then Inr [\<lparr>dir_text = ''Arrive at '' @ label_of n, dir_distance = dst,
                                 dir_type = ''arrive''\<rparr>]
                      else Inr [\<lparr>dir_text =
                                   (if turn \<noteq> [] then turn @ '' at '' @ label_of n
                                    else ''Head '' @ direction @ '' '' @ em_dash @ '' '' @ dst @
                                         ''m''),
                                 dir_distance = dst,
                                 dir_type =
                                   (if str_includes turn ''left'' then ''left''
                                    else if str_includes turn ''right'' then ''right''
                                    else ''straight'')\<rparr>]
                  | _ \<Rightarrow> Inl TypeError)
         else Inr [])"

text \<open>A loop that appends the steps of each index; an exception ends it.\<close>

fun collect :: "(nat \<Rightarrow> js_error + 'a list) \<Rightarrow> nat list \<Rightarrow> js_error + 'a list" where
  "collect f [] = Inr []"
| "collect f (i # js) =
     (case f i of
        Inl err \<Rightarrow> Inl err
      | Inr xs \<Rightarrow> (case collect f js of Inl err \<Rightarrow> Inl err | Inr ys \<Rightarrow> Inr (xs @ ys)))"

definition generateDirections ::
  "engine \<Rightarrow> string list \<Rightarrow> node list \<Rightarrow> js_error + direction list" where
  "generateDirections eng path nodes =
     (if length path < 2 then Inr []
      else collect (direction_at eng (nodeMap_of nodes) path) [1..<length path])"

section \<open>Voice directions (src/MapView3D.jsx, generateVoiceDirections)\<close>

text \<open>A step \<open>{ text, nodeId, type }\<close>.\<close>

record voice_direction =
  voice_text :: string
  voice_nodeId :: string
  voice_type :: string

text \<open>\<open>curr.type\<close>: \<open>undefined\<close> for a value that is not a node.\<close>

fun type_of :: "node_value \<Rightarrow> string option" where
  "type_of (NodeValue n) = Some (node_type n)"
| "type_of v = None"

definition specialText_of :: "string option \<Rightarrow> string" where
  "specialText_of nodeType =
     (if nodeType = Some ''elevator'' then ''Take the elevator.''
      else if nodeType = Some ''stairs'' then ''Use the stairwell.''
      else if nodeType = Some ''ramp'' then ''Use the ramp.''
      else if nodeType = Some ''refuge'' then ''Proceed to the refuge area. Help is on the way.''
      else [])"

text \<open>\<open>curr.label || curr.type\<close> as it prints in a template: \<open>undefined\<close> prints by name.\<close>

fun voice_label :: "node_value \<Rightarrow> string" where
  "voice_label (NodeValue n) =
     (case node_label n of
        Some l \<Rightarrow> if l \<noteq> [] then l else node_type n
      | None \<Rightarrow> node_type n)"
| "voice_label v = ''undefined''"

text \<open>The body of the loop: no step when \<open>prev\<close> or \<open>curr\<close> is falsy, and none at an inner
  index when \<open>next\<close> is falsy.\<close>

definition voice_at :: "node_map \<Rightarrow> string list \<Rightarrow> nat \<Rightarrow> voice_direction list" where
  "voice_at nodeMap path i =
     (let prv = nodeMap_get nodeMap (path ! (i - 1));
          cur = nodeMap_get nodeMap (path ! i);
          next = (if i < length path - 1 then nodeMap_get nodeMap (path ! (i + 1)) else NoValue)
      in if truthy_node prv \<and> truthy_node cur
         then (let dx = js_sub (coord_x cur) (coord_x prv);
                   dy = js_sub (coord_y cur) (coord_y prv);
                   nodeType = type_of cur;
                   specialText = specialText_of nodeType
               in if i = length path - 1
                  then [\<lparr>voice_text =
                           (if nodeType = Some ''refuge''
                            then ''You have reached the refuge area. Help is on the way.''
                            else if nodeType = Some ''exit''
                            then ''You have reached '' @ voice_label cur @
                                 ''. Exit the building now.''
                            else ''You have arrived at '' @ voice_label cur @ ''.''),
                         voice_nodeId = path ! i, voice_type = ''arrive''\<rparr>]
                  else if truthy_node next
                  then (let dx2 = js_sub (coord_x next) (coord_x cur);
                            dy2 = js_sub (coord_y next) (coord_y cur);
                            cross = js_sub (js_mul dx dy2) (js_mul dy dx2);
                            dot = js_add (js_mul dx dx2) (js_mul dy dy2)
                        in if js_lt (js_abs cross) (Finite (1 / 2)) \<and> js_gt dot (Finite 0)
                           then (if specialText \<noteq> []
                                 then [\<lparr>voice_text = specialText, voice_nodeId = path ! i,
                                        voice_type = ''special''\<rparr>]
                                 else [\<lparr>voice_text = ''Continue straight.'',
                                        voice_nodeId = path ! i, voice_type = ''straight''\<rparr>])
                           else if js_gt cross (Finite (1 / 2))
                           then [\<lparr>voice_text =
                                    (if specialText \<noteq> [] then specialText else ''Turn left.''),
                                  voice_nodeId = path ! i, voice_type = ''left''\<rparr>]
                           else if js_lt cross (Finite (- (1 / 2)))
                           then [\<lparr>voice_text =
                                    (if specialText \<noteq> [] then specialText else ''Turn right.''),
                                  voice_nodeId = path ! i, voice_type = ''right''\<rparr>]
                           else (if specialText \<noteq> []
                                 then [\<lparr>voice_text = specialText, voice_nodeId = path ! i,
                                        voice_type = ''special''\<rparr>]
                                 else [\<lparr>voice_text = ''Continue straight.'',
                                        voice_nodeId = path ! i, voice_type = ''straight''\<rparr>]))
                  else [])
         else [])"

text \<open>
  \<open>generateVoiceDirections\<close>: reading \<open>.x\<close> of \<open>undefined\<close> throws a TypeError when the
  first or the second id of the path finds nothing in \<open>nodeMap\<close>.
\<close>

definition generateVoiceDirections ::
  "string list \<Rightarrow> node list \<Rightarrow> js_error + voice_direction list" where
  "generateVoiceDirections path nodes =
     (if length path < 2 then Inr []
      else if nodeMap_get (nodeMap_of nodes) (path ! 0) = NoValue \<or>
              nodeMap_get (nodeMap_of nodes) (path ! 1) = NoValue
      then Inl TypeError
      else
        (let startNode = nodeMap_get (nodeMap_of nodes) (path ! 0);
             secondNode = nodeMap_get (nodeMap_of nodes) (path ! 1);
             startDx = js_sub (coord_x secondNode) (coord_x startNode);
             startDy = js_sub (coord_y secondNode) (coord_y startNode);
             startDir =
               (if js_gt (js_abs startDx) (js_abs startDy)
                then (if js_gt startDx (Finite 0) then ''east'' else ''west'')
                else (if js_gt startDy (Finite 0) then ''north'' else ''south''))
         in Inr (\<lparr>voice_text = ''Route calculated. Head '' @ startDir @ ''.'',
                  voice_nodeId = path ! 0, voice_type = ''start''\<rparr> #
                 concat (map (voice_at (nodeMap_of nodes) path) [1..<length path]))))"

section \<open>Routes in the filtered graph\<close>





section \<open>Keys of \<open>dist\<close> and \<open>prev\<close>\<close>

lemma dist_set_keys:
  "fst ` set (dist_set k v d) \<subseteq> insert k (fst ` set d)"
  by (simp add: dist_set_def AList.dom_update subset_insertI)

lemma dist_get_own: "dist_get d k = Val v \<Longrightarrow> k \<in> fst ` set d"
proof -
  assume "dist_get d k = Val v"
  then have "map_of d k = Some v"
    by (simp add: dist_get_def split: option.splits if_splits)
  then have "(k, v) \<in> set d" by (rule map_of_SomeD)
  then show ?thesis by force
qed

lemma init_dist_keys:
  "fst ` set (foldl (\<lambda>d n. dist_set (node_id n) Infinity d) d0 nodes)
     \<subseteq> fst ` set d0 \<union> node_id ` set nodes"
proof (induction nodes arbitrary: d0)
  case Nil
  then show ?case by simp
next
  case (Cons n nodes)
  let ?d = "dist_set (node_id n) Infinity d0"
  have "fst ` set (foldl (\<lambda>d n. dist_set (node_id n) Infinity d) ?d nodes)
          \<subseteq> fst ` set ?d \<union> node_id ` set nodes"
    by (rule Cons.IH)
  also have "\<dots> \<subseteq> insert (node_id n) (fst ` set d0) \<union> node_id ` set nodes"
    by (rule Un_mono [OF dist_set_keys subset_refl])
  finally show ?case by simp
qed

lemma init_state_keys:
  "fst ` set (dist_obj (init_state startId nodes)) \<subseteq> insert startId (node_id ` set nodes)"
proof -
  have "fst ` set (foldl (\<lambda>d n. dist_set (node_id n) Infinity d) [] nodes)
          \<subseteq> node_id ` set nodes"
    using init_dist_keys [of "[]" nodes] by simp
  then have "insert startId (fst ` set (foldl (\<lambda>d n. dist_set (node_id n) Infinity d) [] nodes))
          \<subseteq> insert startId (node_id ` set nodes)"
    by (rule insert_mono)
  with dist_set_keys [of startId "Finite 0" "foldl (\<lambda>d n. dist_set (node_id n) Infinity d) [] nodes"]
  show ?thesis unfolding init_state_def by (simp only: dijkstra_state.simps subset_trans)
qed

lemma init_state_prev: "prev (init_state startId nodes) = Map.empty"
  by (simp add: init_state_def)

text \<open>\<open>prev\<close> gets a key only where \<open>dist\<close> has it as an own key.\<close>

lemma relax_prev:
  "dom (prev st) \<subseteq> fst ` set (dist_obj st)
     \<Longrightarrow> dom (prev (relax m st nb)) \<subseteq> fst ` set (dist_obj (relax m st nb))"
proof -
  assume a: "dom (prev st) \<subseteq> fst ` set (dist_obj st)"
  have k: "fst ` set (dist_obj (relax m st nb)) = fst ` set (dist_obj st)"
    using relax_keys [of m st nb] by (metis list.set_map)
  have "dom (prev (relax m st nb)) \<subseteq> insert (nb_node nb) (dom (prev st))"
    by (auto simp: relax_def prev_set_def split: js_value.splits if_splits)
  moreover have "nb_node nb \<in> fst ` set (dist_obj st)"
    if "prev (relax m st nb) \<noteq> prev st"
  proof -
    from that obtain dn where "dist_get (dist_obj st) (nb_node nb) = Val dn"
      by (auto simp: relax_def split: js_value.splits if_splits)
    then show ?thesis by (rule dist_get_own)
  qed
  ultimately show ?thesis using a k by (cases "prev (relax m st nb) = prev st") auto
qed

lemma foldl_relax_prev:
  "dom (prev st) \<subseteq> fst ` set (dist_obj st)
     \<Longrightarrow> dom (prev (foldl (relax m) st l)) \<subseteq> fst ` set (dist_obj (foldl (relax m) st l))"
  by (induction l arbitrary: st) (simp_all add: relax_prev)

lemma visit_prev:
  assumes "visit eng adj m st = Inr st'" and "dom (prev st) \<subseteq> fst ` set (dist_obj st)"
  shows "dom (prev st') \<subseteq> fst ` set (dist_obj st')"
proof -
  let ?s = "st\<lparr>visited := visited st @ [m]\<rparr>"
  from assms(2) have s: "dom (prev ?s) \<subseteq> fst ` set (dist_obj ?s)" by simp
  from assms(1) have "st' = ?s \<or> (\<exists>l. st' = foldl (relax m) ?s l)"
    by (auto simp: visit_def split: adj_value.splits if_splits)
  then show ?thesis
  proof
    assume "st' = ?s"
    with s show ?thesis by simp
  next
    assume "\<exists>l. st' = foldl (relax m) ?s l"
    then obtain l where "st' = foldl (relax m) ?s l" ..
    with foldl_relax_prev [OF s, of m l] show ?thesis by simp
  qed
qed

lemma visit_key_set:
  "visit eng adj m st = Inr st' \<Longrightarrow> fst ` set (dist_obj st') = fst ` set (dist_obj st)"
  using visit_keys [of eng adj m st st'] by (metis list.set_map)

lemma dijkstra_loop_keys:
  "dijkstra_loop eng adj endId st = Inr st' \<Longrightarrow>
     fst ` set (dist_obj st') = fst ` set (dist_obj st)"
proof (induction eng adj endId st rule: dijkstra_loop.induct)
  case (1 eng adj endId st)
  show ?case
  proof (cases "select_min st")
    case None
    with "1.prems" show ?thesis by (simp add: dijkstra_loop.simps [of eng adj endId st])
  next
    case (Some minNode)
    show ?thesis
    proof (cases "minNode = [] \<or> minNode = endId")
      case True
      with Some "1.prems" show ?thesis
        by (auto simp: dijkstra_loop.simps [of eng adj endId st])
    next
      case False
      with Some "1.prems" obtain st1 where v: "visit eng adj minNode st = Inr st1"
        and l: "dijkstra_loop eng adj endId st1 = Inr st'"
        by (auto simp: dijkstra_loop.simps [of eng adj endId st] split: sum.splits)
      from "1.IH" [OF Some False v l] visit_key_set [OF v] show ?thesis by simp
    qed
  qed
qed

lemma dijkstra_loop_prev:
  "dijkstra_loop eng adj endId st = Inr st' \<Longrightarrow> dom (prev st) \<subseteq> fst ` set (dist_obj st) \<Longrightarrow>
     dom (prev st') \<subseteq> fst ` set (dist_obj st')"
proof (induction eng adj endId st rule: dijkstra_loop.induct)
  case (1 eng adj endId st)
  show ?case
  proof (cases "select_min st")
    case None
    with "1.prems" show ?thesis by (simp add: dijkstra_loop.simps [of eng adj endId st])
  next
    case (Some minNode)
    show ?thesis
    proof (cases "minNode = [] \<or> minNode = endId")
      case True
      with Some "1.prems" show ?thesis
        by (auto simp: dijkstra_loop.simps [of eng adj endId st])
    next
      case False
      with Some "1.prems" obtain st1 where v: "visit eng adj minNode st = Inr st1"
        and l: "dijkstra_loop eng adj endId st1 = Inr st'"
        by (auto simp: dijkstra_loop.simps [of eng adj endId st] split: sum.splits)
      from "1.IH" [OF Some False v l visit_prev [OF v "1.prems"(2)]] show ?thesis .
    qed
  qed
qed

text \<open>The loop ends without an exception when \<open>adj\<close> has its first prototype and no key of
  \<open>dist\<close> names an inherited member.\<close>

lemma visit_returns:
  "adj_proto adj = None \<Longrightarrow> \<not> inherited m \<Longrightarrow> \<exists>st'. visit eng adj m st = Inr st'"
  by (simp add: visit_def adj_get_def split: option.splits)

lemma dijkstra_loop_returns:
  "adj_proto adj = None \<Longrightarrow> \<forall>k \<in> fst ` set (dist_obj st). \<not> inherited k \<Longrightarrow>
     \<exists>st'. dijkstra_loop eng adj endId st = Inr st'"
proof (induction eng adj endId st rule: dijkstra_loop.induct)
  case (1 eng adj endId st)
  show ?case
  proof (cases "select_min st")
    case None
    then show ?thesis by (simp add: dijkstra_loop.simps [of eng adj endId st])
  next
    case (Some minNode)
    show ?thesis
    proof (cases "minNode = [] \<or> minNode = endId")
      case True
      with Some show ?thesis by (auto simp: dijkstra_loop.simps [of eng adj endId st])
    next
      case False
      from Some have "minNode \<in> fst ` set (dist_obj st)"
        using select_min_unvisited by blast
      with "1.prems"(2) have "\<not> inherited minNode" by blast
      from visit_returns [OF "1.prems"(1) this] obtain st1 where
        v: "visit eng adj minNode st = Inr st1" by blast
      from "1.prems"(2) visit_key_set [OF v]
      have "\<forall>k \<in> fst ` set (dist_obj st1). \<not> inherited k" by simp
      from "1.IH" [OF Some False v "1.prems"(1) this] obtain st' where
        "dijkstra_loop eng adj endId st1 = Inr st'" by blast
      with Some False v show ?thesis
        by (auto simp: dijkstra_loop.simps [of eng adj endId st])
    qed
  qed
qed

text \<open>The adjacency lists are built without an exception when no node id and no edge
  endpoint names an inherited member.\<close>

lemma adj_init_proto:
  "adj_proto adj0 = None \<Longrightarrow> ''__proto__'' \<notin> node_id ` set nodes \<Longrightarrow>
     adj_proto (foldl (\<lambda>adj n. adj_new adj (node_id n)) adj0 nodes) = None"
  by (induction nodes arbitrary: adj0) (auto simp: adj_new_def)

lemma adj_push_returns:
  "adj_proto adj = None \<Longrightarrow> \<not> inherited k \<Longrightarrow>
     \<exists>adj'. adj_push eng adj k nb = Inr adj' \<and> adj_proto adj' = None"
  by (simp add: adj_push_def adj_get_def split: option.splits)

lemma add_edge_returns:
  assumes "adj_proto adj = None" and "\<not> inherited (edge_from e)" and "\<not> inherited (edge_to e)"
  shows "\<exists>adj'. add_edge eng wm bs nm adj e = Inr adj' \<and> adj_proto adj' = None"
proof -
  obtain a1 where
    a1: "adj_push eng adj (edge_from e)
           \<lparr>nb_node = edge_to e,
            nb_dist = edge_length eng (nodeMap_get nm (edge_from e)) (nodeMap_get nm (edge_to e))\<rparr>
         = Inr a1" "adj_proto a1 = None"
    using adj_push_returns [OF assms(1,2)] by blast
  obtain a2 where
    a2: "adj_push eng a1 (edge_to e)
           \<lparr>nb_node = edge_from e,
            nb_dist = edge_length eng (nodeMap_get nm (edge_from e)) (nodeMap_get nm (edge_to e))\<rparr>
         = Inr a2" "adj_proto a2 = None"
    using adj_push_returns [OF a1(2) assms(3)] by blast
  from a1 a2 assms(1) show ?thesis by (simp add: add_edge_def Let_def)
qed

lemma add_edges_returns:
  "adj_proto adj = None \<Longrightarrow>
   \<forall>e \<in> set edges. \<not> inherited (edge_from e) \<and> \<not> inherited (edge_to e) \<Longrightarrow>
     \<exists>adj'. add_edges eng wm bs nm adj edges = Inr adj' \<and> adj_proto adj' = None"
proof (induction edges arbitrary: adj)
  case Nil
  then show ?case by simp
next
  case (Cons e edges)
  from Cons.prems obtain a1 where
    a1: "add_edge eng wm bs nm adj e = Inr a1" "adj_proto a1 = None"
    using add_edge_returns [of adj e eng wm bs nm] by auto
  from Cons.IH [OF a1(2)] Cons.prems(2) a1(1) show ?case by simp
qed

text \<open>The reconstruction loop at a key that \<open>prev\<close> does not have and that names no
  inherited member.\<close>

lemma walk_single:
  "k \<noteq> [] \<Longrightarrow> prev_get prv k = Undefined \<Longrightarrow> walk eng prv (Val k) [] = Some [Val k]"
  by (simp add: walk.simps)

lemma prev_get_undefined: "k \<notin> dom prv \<Longrightarrow> \<not> inherited k \<Longrightarrow> prev_get prv k = Undefined"
  by (auto simp: prev_get_def split: option.splits)

lemma dist_get_undefined:
  "k \<notin> fst ` set d \<Longrightarrow> \<not> inherited k \<Longrightarrow> dist_get d k = Undefined"
  by (auto simp: dist_get_def map_of_eq_None_iff split: option.splits)

section \<open>Concrete evaluation\<close>

lemmas object_eval =
  inherited_def object_prototype_def dist_set_def dist_get_def prev_set_def prev_get_def
  nodeMap_of_def nodeMap_set_def nodeMap_get_def node_field_def
  adj_init_def adj_new_def adj_get_def adj_push_def

lemmas loop_eval =
  object_eval dijkstra_def build_adj_def add_edge_def isBlocked_def edge_length_def
  init_state_def Let_def dijkstra_loop.simps select_min_def for_in_keys_def
  is_array_index_def is_digit_def scan_step_def visit_def relax_def




text \<open>
  Four nodes; the direct edge \<open>A\<close> -- \<open>D\<close> is a staircase, the detour over \<open>C\<close> is cut by
  a blocked edge (listed in the opposite direction), the route over \<open>B\<close> survives.
\<close>

definition demo_nodes :: "node list" where
  "demo_nodes =
     [\<lparr>node_id = ''A'', node_x = 0, node_y = 0, node_type = ''intersection'',
       node_accessible = True, node_label = None\<rparr>,
      \<lparr>node_id = ''B'', node_x = 3, node_y = 4, node_type = ''door'',
       node_accessible = True, node_label = None\<rparr>,
      \<lparr>node_id = ''C'', node_x = 0, node_y = 1, node_type = ''refuge'',
       node_accessible = True, node_label = Some ''Refuge''\<rparr>,
      \<lparr>node_id = ''D'', node_x = 3, node_y = 0, node_type = ''exit'',
       node_accessible = True, node_label = Some ''Exit''\<rparr>]"

section \<open>The claims\<close>

text \<open>
  Two defects of \<open>src/pathfinding.js\<close> recur below.
  \<^item> The tests \<open>!minNode\<close> and \<open>while (current)\<close> are meant to detect \<open>null\<close> and \<open>undefined\<close>,
    but the empty string is falsy too: a node whose id is the empty string is never
    visited and never enters a path.
  \<^item> \<open>adj\<close>, \<open>nodeMap\<close>, \<open>dist\<close> and \<open>prev\<close> are object literals used as dictionaries, and a
    lookup with an id that names a member of \<open>Object.prototype\<close> finds that member when
    the object has no own property of that name (and \<open>dist['__proto__'] = 0\<close> stores
    nothing).
\<close>

subsection \<open>C1\<close>


subsection \<open>C2\<close>


subsection \<open>C3\<close>


subsection \<open>C4\<close>


subsection \<open>C5\<close>


subsection \<open>C6\<close>


subsection \<open>C9\<close>

text \<open>
  C9: in the static dataset the ids of the node list are pairwise distinct, and both
  endpoints of every edge are ids of the node list.
\<close>

theorem dataset_invariant:
  "distinct (map node_id NODES) \<and>
   (\<forall>e \<in> set EDGES. edge_from e \<in> node_id ` set NODES \<and> edge_to e \<in> node_id ` set NODES)"
  by code_simp

theorem dataset_invariant_witness:
  "\<lparr>edge_from = ''NODE_DOOR_STAIRS1'', edge_to = ''NODE_STAIRS_1'', edge_type = ''stairs'',
    edge_accessible = False\<rparr> \<in> set EDGES \<and>
   ''NODE_DOOR_STAIRS1'' \<in> node_id ` set NODES \<and> ''NODE_STAIRS_1'' \<in> node_id ` set NODES"
proof -
  have m: "\<lparr>edge_from = ''NODE_DOOR_STAIRS1'', edge_to = ''NODE_STAIRS_1'',
             edge_type = ''stairs'', edge_accessible = False\<rparr> \<in> set EDGES"
    by (simp add: EDGES_def)
  from dataset_invariant m show ?thesis by fastforce
qed

subsection \<open>C10\<close>

text \<open>No id of the input names a member of \<open>Object.prototype\<close>.\<close>

definition plain_ids :: "string \<Rightarrow> node list \<Rightarrow> edge list \<Rightarrow> bool" where
  "plain_ids startId nodes edges =
     list_all (\<lambda>k. \<not> inherited k)
       (startId # map node_id nodes @ map edge_from edges @ map edge_to edges)"

text \<open>
  C10, as stated, at three inputs whose \<open>endId\<close> is a non-empty string, no node id and not
  \<open>startId\<close>. For \<open>endId = '__proto__'\<close> the lookups \<open>dist[endId]\<close> and \<open>prev[endId]\<close> find the
  object \<open>Object.prototype\<close>: the path has two elements and the distance is that object. For
  \<open>endId = 'constructor'\<close> they find the function \<open>Object\<close>, and the result is not the path
  \<open>[endId]\<close> with the distance \<open>undefined\<close> either. With an edge from \<open>toString\<close>, which
  \<open>nodeMap\<close> and \<open>adj\<close> inherit, \<open>adj['toString'].push\<close> throws a TypeError, for any \<open>endId\<close>.
\<close>

theorem dijkstra_unknown_end_inherited:
  "\<forall>eng.
     ''__proto__'' \<notin> node_id ` set [\<lparr>node_id = ''A'', node_x = 0, node_y = 0,
        node_type = ''intersection'', node_accessible = True, node_label = None\<rparr>] \<and>
     dijkstra eng ''A'' ''__proto__''
       [\<lparr>node_id = ''A'', node_x = 0, node_y = 0, node_type = ''intersection'',
         node_accessible = True, node_label = None\<rparr>] [] False []
     = Some (Inr (Route [Inherited ''__proto__'', Val ''__proto__''] (Inherited ''__proto__''))) \<and>
     ''constructor'' \<notin> node_id ` set [\<lparr>node_id = ''A'', node_x = 0, node_y = 0,
        node_type = ''intersection'', node_accessible = True, node_label = None\<rparr>] \<and>
     dijkstra eng ''A'' ''constructor''
       [\<lparr>node_id = ''A'', node_x = 0, node_y = 0, node_type = ''intersection'',
         node_accessible = True, node_label = None\<rparr>] [] False []
     \<noteq> Some (Inr (Route [Val ''constructor''] Undefined)) \<and>
     ''X'' \<notin> node_id ` set [\<lparr>node_id = ''A'', node_x = 0, node_y = 0,
        node_type = ''intersection'', node_accessible = True, node_label = None\<rparr>] \<and>
     dijkstra eng ''A'' ''X''
       [\<lparr>node_id = ''A'', node_x = 0, node_y = 0, node_type = ''intersection'',
         node_accessible = True, node_label = None\<rparr>]
       [\<lparr>edge_from = ''toString'', edge_to = ''A'', edge_type = ''corridor'',
         edge_accessible = True\<rparr>] False []
     = Some (Inl TypeError)"
  by (simp add: loop_eval walk.simps [of _ _ "Val ''__proto__''"]
      walk.simps [of _ _ "Inherited ''__proto__''"] walk.simps [of _ _ Undefined])

text \<open>
  C10 (amended): if \<open>endId\<close> is a non-empty string that is not the id of a node, differs from
  \<open>startId\<close> and names no member of \<open>Object.prototype\<close>, then \<open>dijkstra\<close> does not return
  \<open>null\<close>: either it returns the path \<open>[endId]\<close> with the distance \<open>undefined\<close>, or it throws a
  TypeError; and it returns that result, without an exception, whenever no node id, no edge
  endpoint and not \<open>startId\<close> names a member of \<open>Object.prototype\<close>.
\<close>

theorem dijkstra_unknown_end:
  assumes "endId \<noteq> []" and "endId \<notin> node_id ` set nodes" and "endId \<noteq> startId"
    and "\<not> inherited endId"
  shows "(dijkstra eng startId endId nodes edges wheelchairMode blockedEdges
            = Some (Inr (Route [Val endId] Undefined)) \<or>
          dijkstra eng startId endId nodes edges wheelchairMode blockedEdges
            = Some (Inl TypeError)) \<and>
         (plain_ids startId nodes edges \<longrightarrow>
            dijkstra eng startId endId nodes edges wheelchairMode blockedEdges
              = Some (Inr (Route [Val endId] Undefined)))"
proof -
  let ?st0 = "init_state startId nodes"
  let ?res = "dijkstra eng startId endId nodes edges wheelchairMode blockedEdges"
  have err: "e = TypeError" for e :: js_error by (cases e) simp
  from assms(2,3) have nokey: "endId \<notin> insert startId (node_id ` set nodes)" by simp
  have returned: "?res = Some (Inr (Route [Val endId] Undefined))"
    if b: "build_adj eng nodes edges wheelchairMode blockedEdges = Inr adj"
      and l: "dijkstra_loop eng adj endId ?st0 = Inr st" for adj st
  proof -
    from dijkstra_loop_keys [OF l] init_state_keys [of startId nodes] nokey
    have k: "endId \<notin> fst ` set (dist_obj st)" by blast
    have "dom (prev ?st0) \<subseteq> fst ` set (dist_obj ?st0)" by (simp add: init_state_prev)
    from dijkstra_loop_prev [OF l this] k have "endId \<notin> dom (prev st)" by blast
    from walk_single [OF assms(1) prev_get_undefined [OF this assms(4)]]
    have "walk eng (prev st) (Val endId) [] = Some [Val endId]" .
    with dist_get_undefined [OF k assms(4)] b l show ?thesis
      by (simp add: dijkstra_def)
  qed
  have 1: "?res = Some (Inr (Route [Val endId] Undefined)) \<or> ?res = Some (Inl TypeError)"
  proof (cases "build_adj eng nodes edges wheelchairMode blockedEdges")
    case (Inl e)
    with err [of e] show ?thesis by (simp add: dijkstra_def)
  next
    case (Inr adj)
    show ?thesis
    proof (cases "dijkstra_loop eng adj endId ?st0")
      case (Inl e)
      with Inr err [of e] show ?thesis by (simp add: dijkstra_def)
    next
      case st: (Inr st)
      from returned [OF Inr st] show ?thesis ..
    qed
  qed
  have 2: "?res = Some (Inr (Route [Val endId] Undefined))" if p: "plain_ids startId nodes edges"
  proof -
    from p have s: "\<not> inherited startId" and n: "\<forall>k \<in> node_id ` set nodes. \<not> inherited k"
      and e: "\<forall>e \<in> set edges. \<not> inherited (edge_from e) \<and> \<not> inherited (edge_to e)"
      by (auto simp: plain_ids_def list_all_iff)
    have "inherited ''__proto__''" by (simp add: inherited_def object_prototype_def)
    with n have "''__proto__'' \<notin> node_id ` set nodes" by blast
    then have "adj_proto (adj_init nodes) = None"
      unfolding adj_init_def by (intro adj_init_proto) simp_all
    from add_edges_returns [OF this e] obtain adj where
      b: "build_adj eng nodes edges wheelchairMode blockedEdges = Inr adj"
      and a: "adj_proto adj = None"
      unfolding build_adj_def by blast
    from s n init_state_keys [of startId nodes]
    have "\<forall>k \<in> fst ` set (dist_obj ?st0). \<not> inherited k" by blast
    from dijkstra_loop_returns [OF a this] obtain st where
      "dijkstra_loop eng adj endId ?st0 = Inr st" by blast
    from returned [OF b this] show ?thesis .
  qed
  from 1 2 show ?thesis by blast
qed

theorem dijkstra_unknown_end_witness:
  "\<forall>eng. ''NODE_X'' \<noteq> [] \<and> ''NODE_X'' \<notin> node_id ` set NODES \<and> ''NODE_X'' \<noteq> ''NODE_NC_W'' \<and>
     \<not> inherited ''NODE_X'' \<and> plain_ids ''NODE_NC_W'' NODES EDGES \<and>
     dijkstra eng ''NODE_NC_W'' ''NODE_X'' NODES EDGES False []
       = Some (Inr (Route [Val ''NODE_X''] Undefined))"
proof -
  have a: "''NODE_X'' \<noteq> []" and c: "''NODE_X'' \<noteq> ''NODE_NC_W''" by simp_all
  have b: "''NODE_X'' \<notin> node_id ` set NODES" by code_simp
  have d: "\<not> inherited ''NODE_X''" by (simp add: inherited_def object_prototype_def)
  have p: "plain_ids ''NODE_NC_W'' NODES EDGES" by code_simp
  from dijkstra_unknown_end [OF a b c d, of _ EDGES False "[]"] a b c d p show ?thesis by blast
qed

end
